theory Spec2Isabelle
  imports Main "HOL-Library.Word"
begin

section \<open>Job state machine of the server master (servermaster/job_fsm.go)\<close>

subsection \<open>Data model\<close>

text \<open>
  \<^verbatim>\<open>libModel.MasterID\<close> is a string; \<^verbatim>\<open>worker.ID()\<close> indexes the same maps, so worker
  ids are the same strings.
\<close>

type_synonym MasterID = string

text \<open>
  Modelled from the spec: the struct \<^verbatim>\<open>libModel.MasterMeta\<close> (package pkg/meta/orm/model) is
  not among the sources. job_fsm.go reads its fields \<^verbatim>\<open>ID\<close>, \<^verbatim>\<open>Tp\<close> and \<^verbatim>\<open>Config\<close> and writes
  \<^verbatim>\<open>ID\<close>; the remaining attributes are the ones the data model of the specification lists.
\<close>

record MasterMeta =
  ID :: MasterID
  Tp :: int
  NodeID :: string
  Epoch :: int
  Addr :: string
  Initialized :: bool
  Config :: string
  StatusCode :: int

text \<open>
  The maps of the state machine and the callers hold \<^verbatim>\<open>*MasterMeta\<close>: pointers, which several
  map entries may share and through which \<^verbatim>\<open>IterPendingJobs\<close> writes. A pointer is an address,
  and the descriptors live in a heap that maps every address to the record stored there. The
  state machine never stores a nil descriptor: \<^verbatim>\<open>JobDispatched\<close>, the one place a caller hands
  one in, reads \<^verbatim>\<open>job.ID\<close> first.
\<close>

type_synonym addr = nat

type_synonym heap = "addr \<Rightarrow> MasterMeta"

text \<open>
  \<^verbatim>\<open>lib.WorkerHandle\<close> is an interface; the state machine only calls its method \<^verbatim>\<open>ID()\<close> and
  stores the handle. \<open>handle_ref\<close> stands for the identity of the object behind the
  interface, so that two handles with one id can be told apart.
\<close>

record WorkerHandle =
  WorkerHandle_ID :: MasterID
  handle_ref :: nat

text \<open>
  \<^verbatim>\<open>jobHolder\<close> embeds a worker handle (nil until the job is online) and the pointer to the
  descriptor. Every holder is allocated by the operation that stores it and is referred to by
  one map entry only, so the maps hold the holders themselves.
\<close>

record jobHolder =
  WorkerHandle :: "WorkerHandle option"
  MasterMeta :: addr
  addFromFailover :: bool

text \<open>
  \<^verbatim>\<open>JobFsm\<close>: the three maps. The mutex \<^verbatim>\<open>jobsMu\<close> is held for the whole of every operation,
  so each operation is one atomic state transformer.
\<close>

record JobFsm =
  pendingJobs :: "MasterID \<rightharpoonup> addr"
  waitAckJobs :: "MasterID \<rightharpoonup> jobHolder"
  onlineJobs :: "MasterID \<rightharpoonup> jobHolder"

text \<open>
  Errors as values. \<^verbatim>\<open>ErrWorkerNotFound.GenWithStackByArgs(id)\<close> carries the id; whatever
  error the dispatch callback returns is an \<open>error\<close> value as well.
\<close>

datatype error =
    ErrWorkerNotFound MasterID
  | ErrClusterResourceNotEnough
  | ErrOther string

text \<open>
  Modelled from the spec: the protobuf enum \<^verbatim>\<open>pb.QueryJobResponse_JobStatus\<close> is not among the
  sources. job_fsm.go names its values pending, dispatched and online, the specification
  names finished; \<open>QueryJobResponse_unrecognized n\<close> stands for any other number a caller
  may convert to the enum type.
\<close>

datatype QueryJobResponse_JobStatus =
    QueryJobResponse_pending
  | QueryJobResponse_dispatched
  | QueryJobResponse_online
  | QueryJobResponse_finished
  | QueryJobResponse_unrecognized int

text \<open>
  The callback \<^verbatim>\<open>dispatchJobFn func(job *MasterMeta) (string, error)\<close> is a closure: what it
  returns may depend on, and change, everything outside the three maps, the descriptors
  included (it is handed a pointer to one). It is a function of the pointer and of that outside
  state \<open>'w\<close>; \<open>Inl\<close> is a non-nil error, \<open>Inr\<close> the returned id with a nil error.
  \<^verbatim>\<open>IterWaitAckJobs\<close> does nothing with the outside state but pass it on and is defined for
  any \<open>'w\<close>; \<^verbatim>\<open>IterPendingJobs\<close> writes a descriptor itself, so there the outside state is
  the heap together with the rest \<open>'e\<close>.
\<close>

type_synonym 'w dispatchJobFn = "addr \<Rightarrow> 'w \<Rightarrow> (error + MasterID) \<times> 'w"


subsection \<open>Operations\<close>

definition NewJobFsm :: JobFsm where
  "NewJobFsm = \<lparr>pendingJobs = Map.empty, waitAckJobs = Map.empty, onlineJobs = Map.empty\<rparr>"

definition QueryOnlineJob :: "MasterID \<Rightarrow> JobFsm \<Rightarrow> jobHolder option" where
  "QueryOnlineJob jobID fsm = onlineJobs fsm jobID"

text \<open>\<^verbatim>\<open>JobDispatched\<close> reads the id of the job through the pointer, in the heap \<open>h\<close>.\<close>

definition JobDispatched :: "heap \<Rightarrow> addr \<Rightarrow> bool \<Rightarrow> JobFsm \<Rightarrow> JobFsm" where
  "JobDispatched h job fromFailover fsm =
     fsm\<lparr>waitAckJobs := (waitAckJobs fsm)(ID (h job) \<mapsto>
            \<lparr>WorkerHandle = None, MasterMeta = job, addFromFailover = fromFailover\<rparr>)\<rparr>"

text \<open>
  \<^verbatim>\<open>IterPendingJobs\<close>: the list is the order in which \<^verbatim>\<open>range fsm.pendingJobs\<close> yields the keys.
  The result is the returned error (\<open>None\<close> for nil), the state machine, and the heap and the
  rest of the outside state after the call. After a successful dispatch the entry is deleted
  from \<^verbatim>\<open>pendingJobs\<close>, the new id is written into the descriptor through the pointer
  (\<^verbatim>\<open>job.ID = id\<close>, seen by every entry that shares the pointer) and a new holder with the same
  pointer is stored in \<^verbatim>\<open>waitAckJobs\<close>.
\<close>

fun IterPendingJobs ::
  "(heap \<times> 'e) dispatchJobFn \<Rightarrow> MasterID list \<Rightarrow> JobFsm \<Rightarrow> heap \<times> 'e \<Rightarrow>
     error option \<times> JobFsm \<times> heap \<times> 'e" where
  "IterPendingJobs dispatchJobFn [] fsm w = (None, fsm, w)"
| "IterPendingJobs dispatchJobFn (oldJobID # rest) fsm w =
     (case pendingJobs fsm oldJobID of
        None \<Rightarrow> IterPendingJobs dispatchJobFn rest fsm w
      | Some job \<Rightarrow>
          (case dispatchJobFn job w of
             (Inl err, w') \<Rightarrow> (Some err, fsm, w')
           | (Inr newID, h', env') \<Rightarrow>
               IterPendingJobs dispatchJobFn rest
                 (fsm\<lparr>pendingJobs := (pendingJobs fsm)(oldJobID := None),
                      waitAckJobs := (waitAckJobs fsm)(newID \<mapsto>
                        \<lparr>WorkerHandle = None, MasterMeta = job, addFromFailover = False\<rparr>)\<rparr>)
                 (h'(job := (h' job)\<lparr>ID := newID\<rparr>), env')))"



definition JobOnline :: "WorkerHandle \<Rightarrow> JobFsm \<Rightarrow> error option \<times> JobFsm" where
  "JobOnline worker fsm =
     (case waitAckJobs fsm (WorkerHandle_ID worker) of
        None \<Rightarrow> (Some (ErrWorkerNotFound (WorkerHandle_ID worker)), fsm)
      | Some job \<Rightarrow>
          (None,
           fsm\<lparr>onlineJobs := (onlineJobs fsm)(WorkerHandle_ID worker \<mapsto>
                  \<lparr>WorkerHandle = Some worker, MasterMeta = MasterMeta job,
                   addFromFailover = False\<rparr>),
                waitAckJobs := (waitAckJobs fsm)(WorkerHandle_ID worker := None)\<rparr>))"

text \<open>
  \<^verbatim>\<open>JobOffline\<close>: the entry is looked up in \<^verbatim>\<open>onlineJobs\<close> first and in \<^verbatim>\<open>waitAckJobs\<close> only when
  it is not there; an id found in neither is logged and ignored.
\<close>

definition JobOffline :: "WorkerHandle \<Rightarrow> bool \<Rightarrow> JobFsm \<Rightarrow> JobFsm" where
  "JobOffline worker needFailover fsm =
     (case
        (case onlineJobs fsm (WorkerHandle_ID worker) of
           Some job \<Rightarrow>
             Some (job, fsm\<lparr>onlineJobs := (onlineJobs fsm)(WorkerHandle_ID worker := None)\<rparr>)
         | None \<Rightarrow>
             (case waitAckJobs fsm (WorkerHandle_ID worker) of
                None \<Rightarrow> None
              | Some job \<Rightarrow>
                  Some (job,
                    fsm\<lparr>waitAckJobs := (waitAckJobs fsm)(WorkerHandle_ID worker := None)\<rparr>)))
      of
        None \<Rightarrow> fsm
      | Some (job, fsm1) \<Rightarrow>
          if needFailover
          then fsm1\<lparr>pendingJobs := (pendingJobs fsm1)(WorkerHandle_ID worker \<mapsto> MasterMeta job)\<rparr>
          else fsm1)"

definition JobDispatchFailed :: "WorkerHandle \<Rightarrow> JobFsm \<Rightarrow> error option \<times> JobFsm" where
  "JobDispatchFailed worker fsm =
     (case waitAckJobs fsm (WorkerHandle_ID worker) of
        None \<Rightarrow> (Some (ErrWorkerNotFound (WorkerHandle_ID worker)), fsm)
      | Some job \<Rightarrow>
          (None,
           fsm\<lparr>pendingJobs := (pendingJobs fsm)(WorkerHandle_ID worker \<mapsto> MasterMeta job),
                waitAckJobs := (waitAckJobs fsm)(WorkerHandle_ID worker := None)\<rparr>))"

text \<open>\<^verbatim>\<open>len\<close> of a map is the number of its keys.\<close>

fun JobCount :: "QueryJobResponse_JobStatus \<Rightarrow> JobFsm \<Rightarrow> nat" where
  "JobCount QueryJobResponse_pending fsm = card (dom (pendingJobs fsm))"
| "JobCount QueryJobResponse_dispatched fsm = card (dom (waitAckJobs fsm))"
| "JobCount QueryJobResponse_online fsm = card (dom (onlineJobs fsm))"
| "JobCount _ fsm = 0"

text \<open>The number of maps, out of the three, that hold an id.\<close>

definition membership :: "JobFsm \<Rightarrow> MasterID \<Rightarrow> nat" where
  "membership fsm m =
     (if m \<in> dom (pendingJobs fsm) then 1 else 0) +
     (if m \<in> dom (waitAckJobs fsm) then 1 else 0) +
     (if m \<in> dom (onlineJobs fsm) then 1 else 0)"


section \<open>Executor runtime (executor/runtime/runtime.go)\<close>

text \<open>
  Modelled from the spec: the type of task containers, the status values that \<^verbatim>\<open>Poll\<close> returns
  and the methods \<^verbatim>\<open>Poll\<close>, \<^verbatim>\<open>tryBlock\<close> and \<^verbatim>\<open>setRunnable\<close> are not among the sources
  (runtime.go only names the status \<^verbatim>\<open>Blocked\<close>). The specification lists the outcomes Ready,
  Pending and Blocked. The three methods are parameters of the model: each acts on the
  container \<open>'t\<close> (a pointer in the source) and on the state \<open>'s\<close> that the containers
  and their tasks live in.
\<close>

datatype TaskStatus = Ready | Pending | Blocked

record ('t, 's) taskContainer =
  Poll :: "'t \<Rightarrow> 's \<Rightarrow> TaskStatus \<times> 's"
  tryBlock :: "'t \<Rightarrow> 's \<Rightarrow> bool \<times> 's"
  setRunnable :: "'t \<Rightarrow> 's \<Rightarrow> 's"

text \<open>The queue is the slice \<^verbatim>\<open>tasks\<close>; \<^verbatim>\<open>pop\<close> returns nil on an empty queue.\<close>

definition pop :: "'t list \<Rightarrow> 't option \<times> 't list" where
  "pop tasks = (case tasks of [] \<Rightarrow> (None, []) | task # rest \<Rightarrow> (Some task, rest))"

definition push :: "'t \<Rightarrow> 't list \<Rightarrow> 't list" where
  "push t tasks = tasks @ [t]"

text \<open>
  One pass through the body of the \<^verbatim>\<open>for\<close> loop of \<^verbatim>\<open>Run\<close>, on the queue and the state of the
  tasks, as the runtime's own thread executes it.
\<close>

definition Run_iteration ::
  "('t, 's) taskContainer \<Rightarrow> 't list \<times> 's \<Rightarrow> 't list \<times> 's" where
  "Run_iteration c st =
     (case pop (fst st) of
        (None, q') \<Rightarrow> (q', snd st)
      | (Some t, q') \<Rightarrow>
          (case Poll c t (snd st) of
             (status, s1) \<Rightarrow>
               if status = Blocked
               then
                 (case tryBlock c t s1 of
                    (claimed, s2) \<Rightarrow>
                      if claimed then (q', s2) else (push t q', setRunnable c t s2))
               else (push t q', setRunnable c t s1)))"

text \<open>
  \<^verbatim>\<open>Run\<close> loops until the context is cancelled, which is decided outside the runtime: the
  number is the count of iterations that start before \<^verbatim>\<open>ctx.Done()\<close> is seen.
\<close>

fun Run :: "('t, 's) taskContainer \<Rightarrow> nat \<Rightarrow> 't list \<times> 's \<Rightarrow> 't list \<times> 's" where
  "Run c 0 st = st"
| "Run c (Suc n) st = Run c n (Run_iteration c st)"

section \<open>Mock of the metastore client (pkg/meta/kvclient/mock/simple-mockclient.go)\<close>

text \<open>
  Modelled from the spec: \<^verbatim>\<open>metaclient.Op\<close> and \<^verbatim>\<open>metaclient.Error\<close> are not among the sources.
  The metastore contract has the operations Get, Put and Delete; an operation carries its kind,
  its key and its value, read by \<^verbatim>\<open>KeyBytes()\<close> and \<^verbatim>\<open>ValueBytes()\<close>. A delete or a get carries
  no value.
\<close>

datatype opType = tGet | tPut | tDelete

record Op =
  T :: opType
  KeyBytes :: string
  ValueBytes :: string

definition OpGet :: "string \<Rightarrow> Op" where
  "OpGet k = \<lparr>T = tGet, KeyBytes = k, ValueBytes = []\<rparr>"

definition OpPut :: "string \<Rightarrow> string \<Rightarrow> Op" where
  "OpPut k v = \<lparr>T = tPut, KeyBytes = k, ValueBytes = v\<rparr>"

definition OpDelete :: "string \<Rightarrow> Op" where
  "OpDelete k = \<lparr>T = tDelete, KeyBytes = k, ValueBytes = []\<rparr>"

datatype metaclient_Error = MetaOpFail string

record MetaMock =
  store :: "string \<rightharpoonup> string"
  revision :: "64 word"

definition NewMetaMock :: MetaMock where
  "NewMetaMock = \<lparr>store = Map.empty, revision = 0\<rparr>"

text \<open>\<^verbatim>\<open>Delete\<close> and \<^verbatim>\<open>Put\<close> always return a nil error.\<close>

definition Delete :: "string \<Rightarrow> MetaMock \<Rightarrow> metaclient_Error option \<times> MetaMock" where
  "Delete k m = (None, m\<lparr>store := (store m)(k := None), revision := revision m + 1\<rparr>)"

definition Put :: "string \<Rightarrow> string \<Rightarrow> MetaMock \<Rightarrow> metaclient_Error option \<times> MetaMock" where
  "Put k v m = (None, m\<lparr>store := (store m)(k \<mapsto> v), revision := revision m + 1\<rparr>)"

text \<open>
  A transaction holds its queued operations and a pointer to the mock, whose state \<^verbatim>\<open>Commit\<close>
  takes and returns.
\<close>

record mockTxn =
  ops :: "Op list"

definition Txn :: mockTxn where
  "Txn = \<lparr>ops = []\<rparr>"

definition Do :: "Op list \<Rightarrow> mockTxn \<Rightarrow> mockTxn" where
  "Do new t = t\<lparr>ops := ops t @ new\<rparr>"

fun Commit_ops :: "Op list \<Rightarrow> MetaMock \<Rightarrow> metaclient_Error option \<times> MetaMock" where
  "Commit_ops [] m = (None, m)"
| "Commit_ops (op # rest) m =
     (case Put (KeyBytes op) (ValueBytes op) m of
        (Some err, m') \<Rightarrow> (Some err, m')
      | (None, m') \<Rightarrow> Commit_ops rest m')"

definition Commit :: "mockTxn \<Rightarrow> MetaMock \<Rightarrow> metaclient_Error option \<times> MetaMock" where
  "Commit t m = Commit_ops (ops t) m"

section \<open>Concrete inputs\<close>

text \<open>Three descriptors, at the addresses 1, 2 and 3 of a heap.\<close>

definition meta1 :: MasterMeta where
  "meta1 = \<lparr>ID = ''j1'', Tp = 1, NodeID = ''n1'', Epoch = 1, Addr = ''a1'',
            Initialized = True, Config = ''c1'', StatusCode = 0\<rparr>"

definition meta2 :: MasterMeta where
  "meta2 = \<lparr>ID = ''j2'', Tp = 1, NodeID = ''n1'', Epoch = 1, Addr = ''a2'',
            Initialized = True, Config = ''c2'', StatusCode = 0\<rparr>"

definition meta3 :: MasterMeta where
  "meta3 = \<lparr>ID = ''j3'', Tp = 2, NodeID = ''n2'', Epoch = 1, Addr = ''a3'',
            Initialized = False, Config = ''c3'', StatusCode = 0\<rparr>"

definition job1 :: addr where
  "job1 = 1"



definition heap0 :: heap where
  "heap0 p = (if p = 2 then meta2 else if p = 3 then meta3 else meta1)"

definition worker1 :: WorkerHandle where
  "worker1 = \<lparr>WorkerHandle_ID = ''j1'', handle_ref = 7\<rparr>"

definition worker9 :: WorkerHandle where
  "worker9 = \<lparr>WorkerHandle_ID = ''j9'', handle_ref = 9\<rparr>"

text \<open>
  A dispatch callback that always succeeds, with an id derived from the id it reads in the
  descriptor.
\<close>

definition fresh_id :: "(heap \<times> unit) dispatchJobFn" where
  "fresh_id job w = (Inr (''w-'' @ ID (fst w job)), w)"









text \<open>
  Task containers that are numbers, with a \<^verbatim>\<open>Poll\<close> that always returns Ready and records the
  container it was called on.
\<close>

definition always_ready :: "(nat, nat list) taskContainer" where
  "always_ready =
     \<lparr>Poll = (\<lambda>t polled. (Ready, polled @ [t])),
      tryBlock = (\<lambda>t polled. (True, polled)),
      setRunnable = (\<lambda>t polled. polled)\<rparr>"

text \<open>
  Task containers whose \<^verbatim>\<open>Poll\<close> always returns Blocked; \<^verbatim>\<open>tryBlock\<close> fails for container 7, which
  stands for a container that was woken while it was polled, and succeeds for the others.
\<close>

definition blocked_unless_woken :: "(nat, nat list) taskContainer" where
  "blocked_unless_woken =
     \<lparr>Poll = (\<lambda>t polled. (Blocked, polled @ [t])),
      tryBlock = (\<lambda>t polled. (t \<noteq> 7, polled)),
      setRunnable = (\<lambda>t polled. polled)\<rparr>"

section \<open>Properties of the job state machine\<close>

text \<open>
  C2. \<^verbatim>\<open>JobOnline\<close> for a worker id that is not in \<^verbatim>\<open>waitAckJobs\<close> returns the WorkerNotFound
  error and changes nothing. For an id in \<^verbatim>\<open>waitAckJobs\<close> it returns no error, the entry leaves
  \<^verbatim>\<open>waitAckJobs\<close>, and \<^verbatim>\<open>onlineJobs\<close> holds under the same id a holder with the same descriptor
  and the given worker handle; \<^verbatim>\<open>pendingJobs\<close> and all other entries stay as they were.
\<close>

theorem JobOnline_spec:
  "(waitAckJobs fsm (WorkerHandle_ID worker) = None \<longrightarrow>
      JobOnline worker fsm = (Some (ErrWorkerNotFound (WorkerHandle_ID worker)), fsm)) \<and>
   (\<forall>job. waitAckJobs fsm (WorkerHandle_ID worker) = Some job \<longrightarrow>
      fst (JobOnline worker fsm) = None \<and>
      waitAckJobs (snd (JobOnline worker fsm)) (WorkerHandle_ID worker) = None \<and>
      (\<exists>h. onlineJobs (snd (JobOnline worker fsm)) (WorkerHandle_ID worker) = Some h \<and>
           MasterMeta h = MasterMeta job \<and> WorkerHandle h = Some worker) \<and>
      pendingJobs (snd (JobOnline worker fsm)) = pendingJobs fsm \<and>
      (\<forall>k. k \<noteq> WorkerHandle_ID worker \<longrightarrow>
           waitAckJobs (snd (JobOnline worker fsm)) k = waitAckJobs fsm k \<and>
           onlineJobs (snd (JobOnline worker fsm)) k = onlineJobs fsm k))"
  by (simp add: JobOnline_def)

theorem JobOnline_spec_witness:
  "waitAckJobs (JobDispatched heap0 job1 False NewJobFsm) ''j9'' = None \<and>
   JobOnline worker9 (JobDispatched heap0 job1 False NewJobFsm) =
     (Some (ErrWorkerNotFound ''j9''), JobDispatched heap0 job1 False NewJobFsm) \<and>
   waitAckJobs (JobDispatched heap0 job1 False NewJobFsm) ''j1'' =
     Some \<lparr>WorkerHandle = None, MasterMeta = job1, addFromFailover = False\<rparr> \<and>
   fst (JobOnline worker1 (JobDispatched heap0 job1 False NewJobFsm)) = None \<and>
   waitAckJobs (snd (JobOnline worker1 (JobDispatched heap0 job1 False NewJobFsm))) ''j1'' = None \<and>
   onlineJobs (snd (JobOnline worker1 (JobDispatched heap0 job1 False NewJobFsm))) ''j1'' =
     Some \<lparr>WorkerHandle = Some worker1, MasterMeta = job1, addFromFailover = False\<rparr>"
  using JobOnline_spec [of "JobDispatched heap0 job1 False NewJobFsm" worker9]
    JobOnline_spec [of "JobDispatched heap0 job1 False NewJobFsm" worker1]
  by (simp add: JobDispatched_def NewJobFsm_def job1_def heap0_def meta1_def worker1_def worker9_def JobOnline_def)

text \<open>
  C9. \<^verbatim>\<open>JobCount\<close> returns 0 for every status other than pending, dispatched and online, for
  example finished. The function is total: it has no error result and no failing branch.
\<close>

theorem JobCount_other_status:
  "status \<noteq> QueryJobResponse_pending \<Longrightarrow> status \<noteq> QueryJobResponse_dispatched \<Longrightarrow>
   status \<noteq> QueryJobResponse_online \<Longrightarrow> JobCount status fsm = 0"
  by (cases status) simp_all

theorem JobCount_other_status_witness:
  "QueryJobResponse_finished \<noteq> QueryJobResponse_pending \<and>
   QueryJobResponse_finished \<noteq> QueryJobResponse_dispatched \<and>
   QueryJobResponse_finished \<noteq> QueryJobResponse_online \<and>
   JobCount QueryJobResponse_finished (JobDispatched heap0 job1 False NewJobFsm) = 0 \<and>
   JobCount QueryJobResponse_dispatched (JobDispatched heap0 job1 False NewJobFsm) = 1"
  using JobCount_other_status [of QueryJobResponse_finished "JobDispatched heap0 job1 False NewJobFsm"]
  by (simp add: JobDispatched_def NewJobFsm_def)

subsection \<open>Disjointness of the three maps\<close>














subsection \<open>Going offline\<close>

text \<open>
  C3 (as stated: without failover the id ends up in none of the three maps, for every state).
  The statement fails in two states that the operations reach from \<^verbatim>\<open>NewJobFsm\<close>: with the id
  in both \<^verbatim>\<open>onlineJobs\<close> and \<^verbatim>\<open>waitAckJobs\<close> only the online entry is removed, and with the id
  in \<^verbatim>\<open>pendingJobs\<close> alone the worker is unknown and nothing is removed.
\<close>

theorem JobOffline_id_remains:
  "membership (JobOffline worker1 False
      (JobDispatched heap0 job1 False (snd (JobOnline worker1 (JobDispatched heap0 job1 False NewJobFsm)))))
     ''j1'' = 1 \<and>
   waitAckJobs (JobOffline worker1 False
      (JobDispatched heap0 job1 False (snd (JobOnline worker1 (JobDispatched heap0 job1 False NewJobFsm)))))
     ''j1'' = Some \<lparr>WorkerHandle = None, MasterMeta = job1, addFromFailover = False\<rparr> \<and>
   membership (JobOffline worker1 False
      (snd (JobDispatchFailed worker1 (JobDispatched heap0 job1 False NewJobFsm)))) ''j1'' = 1 \<and>
   pendingJobs (JobOffline worker1 False
      (snd (JobDispatchFailed worker1 (JobDispatched heap0 job1 False NewJobFsm)))) ''j1'' = Some job1"
  by (simp add: membership_def JobOffline_def JobDispatched_def JobOnline_def JobDispatchFailed_def
      NewJobFsm_def job1_def heap0_def meta1_def worker1_def)

text \<open>
  C3, amended. \<^verbatim>\<open>JobOffline\<close> removes the entry of the worker's id from \<^verbatim>\<open>onlineJobs\<close> or, when
  the id is not there, from \<^verbatim>\<open>waitAckJobs\<close>, and leaves the other of the two maps as it was. With
  failover the descriptor of the removed entry is put into \<^verbatim>\<open>pendingJobs\<close> under the same id;
  without failover \<^verbatim>\<open>pendingJobs\<close> stays as it was, so the id ends up in no map when it was in
  at most one map and not in \<^verbatim>\<open>pendingJobs\<close> before. For an id that is neither in \<^verbatim>\<open>onlineJobs\<close>
  nor in \<^verbatim>\<open>waitAckJobs\<close> the state is unchanged.
\<close>

theorem JobOffline_spec:
  "(\<forall>job. onlineJobs fsm (WorkerHandle_ID worker) = Some job \<longrightarrow>
      onlineJobs (JobOffline worker needFailover fsm) =
        (onlineJobs fsm)(WorkerHandle_ID worker := None) \<and>
      waitAckJobs (JobOffline worker needFailover fsm) = waitAckJobs fsm \<and>
      pendingJobs (JobOffline worker needFailover fsm) =
        (if needFailover then (pendingJobs fsm)(WorkerHandle_ID worker \<mapsto> MasterMeta job)
         else pendingJobs fsm)) \<and>
   (\<forall>job. onlineJobs fsm (WorkerHandle_ID worker) = None \<and>
      waitAckJobs fsm (WorkerHandle_ID worker) = Some job \<longrightarrow>
      onlineJobs (JobOffline worker needFailover fsm) = onlineJobs fsm \<and>
      waitAckJobs (JobOffline worker needFailover fsm) =
        (waitAckJobs fsm)(WorkerHandle_ID worker := None) \<and>
      pendingJobs (JobOffline worker needFailover fsm) =
        (if needFailover then (pendingJobs fsm)(WorkerHandle_ID worker \<mapsto> MasterMeta job)
         else pendingJobs fsm)) \<and>
   (onlineJobs fsm (WorkerHandle_ID worker) = None \<and>
      waitAckJobs fsm (WorkerHandle_ID worker) = None \<longrightarrow>
      JobOffline worker needFailover fsm = fsm) \<and>
   (\<not> needFailover \<and> membership fsm (WorkerHandle_ID worker) \<le> 1 \<and>
      pendingJobs fsm (WorkerHandle_ID worker) = None \<longrightarrow>
      membership (JobOffline worker needFailover fsm) (WorkerHandle_ID worker) = 0)"
proof (intro conjI allI impI)
  fix job
  assume "onlineJobs fsm (WorkerHandle_ID worker) = Some job"
  then show "onlineJobs (JobOffline worker needFailover fsm) =
        (onlineJobs fsm)(WorkerHandle_ID worker := None)"
    and "waitAckJobs (JobOffline worker needFailover fsm) = waitAckJobs fsm"
    and "pendingJobs (JobOffline worker needFailover fsm) =
        (if needFailover then (pendingJobs fsm)(WorkerHandle_ID worker \<mapsto> MasterMeta job)
         else pendingJobs fsm)"
    by (simp_all add: JobOffline_def)
next
  fix job
  assume "onlineJobs fsm (WorkerHandle_ID worker) = None \<and>
      waitAckJobs fsm (WorkerHandle_ID worker) = Some job"
  then show "onlineJobs (JobOffline worker needFailover fsm) = onlineJobs fsm"
    and "waitAckJobs (JobOffline worker needFailover fsm) =
        (waitAckJobs fsm)(WorkerHandle_ID worker := None)"
    and "pendingJobs (JobOffline worker needFailover fsm) =
        (if needFailover then (pendingJobs fsm)(WorkerHandle_ID worker \<mapsto> MasterMeta job)
         else pendingJobs fsm)"
    by (simp_all add: JobOffline_def)
next
  assume "onlineJobs fsm (WorkerHandle_ID worker) = None \<and>
      waitAckJobs fsm (WorkerHandle_ID worker) = None"
  then show "JobOffline worker needFailover fsm = fsm"
    by (simp add: JobOffline_def)
next
  assume "\<not> needFailover \<and> membership fsm (WorkerHandle_ID worker) \<le> 1 \<and>
      pendingJobs fsm (WorkerHandle_ID worker) = None"
  then show "membership (JobOffline worker needFailover fsm) (WorkerHandle_ID worker) = 0"
    by (cases "onlineJobs fsm (WorkerHandle_ID worker)";
        cases "waitAckJobs fsm (WorkerHandle_ID worker)")
      (simp_all add: membership_def JobOffline_def domIff split: if_splits)
qed

theorem JobOffline_spec_witness:
  "onlineJobs (snd (JobOnline worker1 (JobDispatched heap0 job1 False NewJobFsm))) ''j1'' =
     Some \<lparr>WorkerHandle = Some worker1, MasterMeta = job1, addFromFailover = False\<rparr> \<and>
   pendingJobs (JobOffline worker1 True (snd (JobOnline worker1 (JobDispatched heap0 job1 False NewJobFsm))))
     ''j1'' = Some job1 \<and>
   onlineJobs (JobOffline worker1 True (snd (JobOnline worker1 (JobDispatched heap0 job1 False NewJobFsm))))
     ''j1'' = None \<and>
   onlineJobs (JobDispatched heap0 job1 True NewJobFsm) ''j1'' = None \<and>
   waitAckJobs (JobDispatched heap0 job1 True NewJobFsm) ''j1'' =
     Some \<lparr>WorkerHandle = None, MasterMeta = job1, addFromFailover = True\<rparr> \<and>
   membership (JobDispatched heap0 job1 True NewJobFsm) ''j1'' \<le> 1 \<and>
   pendingJobs (JobDispatched heap0 job1 True NewJobFsm) ''j1'' = None \<and>
   membership (JobOffline worker1 False (JobDispatched heap0 job1 True NewJobFsm)) ''j1'' = 0 \<and>
   onlineJobs NewJobFsm ''j9'' = None \<and> waitAckJobs NewJobFsm ''j9'' = None \<and>
   JobOffline worker9 True NewJobFsm = NewJobFsm"
  using JobOffline_spec [of "snd (JobOnline worker1 (JobDispatched heap0 job1 False NewJobFsm))" worker1 True]
    JobOffline_spec [of "JobDispatched heap0 job1 True NewJobFsm" worker1 False]
    JobOffline_spec [of NewJobFsm worker9 True]
  by (simp add: membership_def JobDispatched_def JobOnline_def NewJobFsm_def
      job1_def heap0_def meta1_def worker1_def worker9_def)


subsection \<open>The dispatch loop over the pending jobs\<close>








text \<open>
  The write \<^verbatim>\<open>job.ID = id\<close> goes through the pointer. After a job has come online and the same
  descriptor has been dispatched again and has failed to dispatch, the online entry and the
  pending entry share the descriptor: dispatching the pending entry changes the id that the
  online entry shows.
\<close>

lemma IterPendingJobs_writes_through_pointer:
  "onlineJobs (fst (snd (IterPendingJobs fresh_id [''j1'']
      (snd (JobDispatchFailed worker1 (JobDispatched heap0 job1 False
         (snd (JobOnline worker1 (JobDispatched heap0 job1 False NewJobFsm))))))
      (heap0, ())))) ''j1'' =
     Some \<lparr>WorkerHandle = Some worker1, MasterMeta = job1, addFromFailover = False\<rparr> \<and>
   ID (heap0 job1) = ''j1'' \<and>
   ID (fst (snd (snd (IterPendingJobs fresh_id [''j1'']
      (snd (JobDispatchFailed worker1 (JobDispatched heap0 job1 False
         (snd (JobOnline worker1 (JobDispatched heap0 job1 False NewJobFsm))))))
      (heap0, ())))) job1) = ''w-j1''"
  by (simp add: JobDispatchFailed_def JobDispatched_def JobOnline_def NewJobFsm_def fresh_id_def
      heap0_def job1_def meta1_def worker1_def)






subsection \<open>The dispatch loop over the jobs waiting for acknowledgement\<close>










section \<open>Properties of the executor runtime\<close>

text \<open>
  Helper facts: an iteration on a non-empty queue pops the head and pushes it back or not, so
  after as many iterations as there are containers ahead of it a container is at the head.
\<close>

lemma Run_iteration_Cons:
  "\<exists>s2. Run_iteration c (x # q, s) = (q, s2) \<or> Run_iteration c (x # q, s) = (q @ [x], s2)"
proof -
  obtain status s1 where p: "Poll c x s = (status, s1)" by (cases "Poll c x s")
  obtain claimed s3 where b: "tryBlock c x s1 = (claimed, s3)" by (cases "tryBlock c x s1")
  show ?thesis
    by (cases "status = Blocked"; cases claimed) (simp_all add: Run_iteration_def pop_def push_def p b)
qed

lemma Run_reaches_head:
  "\<exists>zs s'. Run c (length xs) (xs @ ys, s) = (ys @ zs, s')"
proof (induction xs arbitrary: ys s)
  case Nil
  show ?case by simp
next
  case (Cons x xs)
  obtain s2 where "Run_iteration c (x # (xs @ ys), s) = (xs @ ys, s2) \<or>
      Run_iteration c (x # (xs @ ys), s) = ((xs @ ys) @ [x], s2)"
    using Run_iteration_Cons [of c x "xs @ ys" s] by blast
  then show ?case
  proof
    assume it: "Run_iteration c (x # (xs @ ys), s) = (xs @ ys, s2)"
    obtain zs s' where "Run c (length xs) (xs @ ys, s2) = (ys @ zs, s')"
      using Cons.IH [of ys s2] by blast
    then show ?thesis using it by simp
  next
    assume it: "Run_iteration c (x # (xs @ ys), s) = ((xs @ ys) @ [x], s2)"
    obtain zs s' where "Run c (length xs) (xs @ (ys @ [x]), s2) = ((ys @ [x]) @ zs, s')"
      using Cons.IH [of "ys @ [x]" s2] by blast
    then have "Run c (length (x # xs)) ((x # xs) @ ys, s) = (ys @ ([x] @ zs), s')"
      using it by simp
    then show ?thesis by blast
  qed
qed

text \<open>
  C6 (as stated: a container whose \<^verbatim>\<open>Poll\<close> returns Ready is dropped and never polled again).
  \<^verbatim>\<open>Run\<close> tests the status against \<^verbatim>\<open>Blocked\<close> only: with a \<^verbatim>\<open>Poll\<close> that returns Ready the container
  is back in the queue after the iteration and is polled again in the next one.
\<close>

theorem Run_polls_ready_again:
  "Run_iteration always_ready ([7], []) = ([7], [7]) \<and>
   Run always_ready 2 ([7], []) = ([7], [7, 7])"
  by (simp add: numeral_2_eq_2 Run_iteration_def pop_def push_def always_ready_def)

text \<open>
  C6, amended. In an iteration of \<^verbatim>\<open>Run\<close> in which \<^verbatim>\<open>Poll\<close> on the popped container returns Ready,
  or any status other than Blocked, the container is set runnable and pushed onto the tail of
  the queue; when no other thread touches the queue it is at the head again, ready to be
  polled, after the containers that were ahead of it have had their iteration.
\<close>

theorem Run_iteration_requeues:
  assumes "Poll c t s = (status, s1)" and "status \<noteq> Blocked"
  shows "Run_iteration c (t # rest, s) = (rest @ [t], setRunnable c t s1) \<and>
         (\<exists>zs s'. Run c (Suc (length rest)) (t # rest, s) = (t # zs, s'))"
proof
  show it: "Run_iteration c (t # rest, s) = (rest @ [t], setRunnable c t s1)"
    using assms by (simp add: Run_iteration_def pop_def push_def)
  obtain zs s' where "Run c (length rest) (rest @ [t], setRunnable c t s1) = ([t] @ zs, s')"
    using Run_reaches_head [of c rest "[t]" "setRunnable c t s1"] by blast
  then have "Run c (Suc (length rest)) (t # rest, s) = (t # zs, s')"
    using it by simp
  then show "\<exists>zs s'. Run c (Suc (length rest)) (t # rest, s) = (t # zs, s')" by blast
qed

theorem Run_iteration_requeues_witness:
  "Poll always_ready 7 [] = (Ready, [7]) \<and> Ready \<noteq> Blocked \<and>
   Run_iteration always_ready ([7, 8], []) = ([8, 7], [7]) \<and>
   Run always_ready 2 ([7, 8], []) = ([7, 8], [7, 8])"
  using Run_iteration_requeues [of always_ready 7 "[]" Ready "[7]" "[8]"]
  by (simp add: numeral_2_eq_2 Run_iteration_def pop_def push_def always_ready_def)

text \<open>
  C7. In an iteration of \<^verbatim>\<open>Run\<close> in which \<^verbatim>\<open>Poll\<close> on the popped container returns Blocked, the
  container is left out of the queue (parked) when \<^verbatim>\<open>tryBlock\<close> succeeds and only then: when
  \<^verbatim>\<open>tryBlock\<close> fails, which is how a wake that arrived in the meantime shows, the container is
  set runnable and pushed onto the tail of the queue, and with no other thread touching the
  queue it is at the head again, to be polled, after the containers that were ahead of it have
  had their iteration. The waker itself is not part of \<^verbatim>\<open>Run\<close>.
\<close>

theorem Run_iteration_blocked:
  assumes "Poll c t s = (Blocked, s1)" and "tryBlock c t s1 = (claimed, s2)"
  shows "(claimed \<longrightarrow> Run_iteration c (t # rest, s) = (rest, s2)) \<and>
         (\<not> claimed \<longrightarrow>
            Run_iteration c (t # rest, s) = (rest @ [t], setRunnable c t s2) \<and>
            (\<exists>zs s'. Run c (Suc (length rest)) (t # rest, s) = (t # zs, s')))"
proof (intro conjI impI)
  assume claimed
  then show "Run_iteration c (t # rest, s) = (rest, s2)"
    using assms by (simp add: Run_iteration_def pop_def)
next
  assume "\<not> claimed"
  then show it: "Run_iteration c (t # rest, s) = (rest @ [t], setRunnable c t s2)"
    using assms by (simp add: Run_iteration_def pop_def push_def)
  obtain zs s' where "Run c (length rest) (rest @ [t], setRunnable c t s2) = ([t] @ zs, s')"
    using Run_reaches_head [of c rest "[t]" "setRunnable c t s2"] by blast
  then have "Run c (Suc (length rest)) (t # rest, s) = (t # zs, s')"
    using it by simp
  then show "\<exists>zs s'. Run c (Suc (length rest)) (t # rest, s) = (t # zs, s')"
    by blast
qed

theorem Run_iteration_blocked_witness:
  "Poll blocked_unless_woken 5 [] = (Blocked, [5]) \<and>
   tryBlock blocked_unless_woken 5 [5] = (True, [5]) \<and>
   Run_iteration blocked_unless_woken ([5, 8], []) = ([8], [5]) \<and>
   Poll blocked_unless_woken 7 [] = (Blocked, [7]) \<and>
   tryBlock blocked_unless_woken 7 [7] = (False, [7]) \<and>
   Run_iteration blocked_unless_woken ([7, 8], []) = ([8, 7], [7]) \<and>
   Run blocked_unless_woken 2 ([7, 8], []) = ([7], [7, 8])"
proof -
  have p5: "Poll blocked_unless_woken 5 [] = (Blocked, [5])"
    and b5: "tryBlock blocked_unless_woken 5 [5] = (True, [5])"
    and p7: "Poll blocked_unless_woken 7 [] = (Blocked, [7])"
    and b7: "tryBlock blocked_unless_woken 7 [7] = (False, [7])"
    by (simp_all add: blocked_unless_woken_def)
  have r: "Run blocked_unless_woken 2 ([7, 8], []) = ([7], [7, 8])"
    by (simp add: numeral_2_eq_2 Run_iteration_def pop_def push_def blocked_unless_woken_def)
  show ?thesis
    using Run_iteration_blocked [OF p5 b5, of "[8]"] Run_iteration_blocked [OF p7 b7, of "[8]"]
      p5 b5 p7 b7 r
    by (simp add: blocked_unless_woken_def)
qed

section \<open>Properties of the metastore mock\<close>

text \<open>
  \<^verbatim>\<open>Commit\<close> never fails, and it only ever adds keys: the key of every queued operation, whatever
  its kind, is in the store afterwards.
\<close>

lemma Commit_ops_never_deletes:
  "fst (Commit_ops os m) = None \<and>
   dom (store (snd (Commit_ops os m))) = dom (store m) \<union> KeyBytes ` set os"
  by (induction os arbitrary: m) (auto simp: Put_def)


text \<open>
  C8 at a concrete input. With the key \<open>k\<close> stored, committing a transaction that holds one
  delete of \<open>k\<close> returns no error and leaves \<open>k\<close> in the store with the empty value, where
  \<^verbatim>\<open>Delete\<close> on the same store removes the key.
\<close>

theorem Commit_applies_delete_as_put:
  "Commit (Do [OpDelete ''k''] Txn) (snd (Put ''k'' ''v'' NewMetaMock)) =
     (None, \<lparr>store = [''k'' \<mapsto> ''''], revision = 2\<rparr>) \<and>
   Delete ''k'' (snd (Put ''k'' ''v'' NewMetaMock)) =
     (None, \<lparr>store = Map.empty, revision = 2\<rparr>)"
  by (simp add: Commit_def Do_def Txn_def OpDelete_def Put_def Delete_def NewMetaMock_def)

end
